theory Spec2Isabelle
  imports Complex_Main "HOL-Library.AList"
begin

section \<open>Python values, dictionaries and exceptions\<close>

text \<open>
  The code under verification is dynamically typed Python. Values that travel through
  call parameters and messages are modelled by one datatype; a \<open>dict\<close> with string keys is
  an association list in insertion order, as Python dictionaries are.
\<close>

datatype pyval =
    VNone
  | VBool bool
  | VInt int
  | VStr string
  | VList "pyval list"
  | VDict "(string \<times> pyval) list"

type_synonym pydict = "(string \<times> pyval) list"

text \<open>Exceptions are values of a sum type: \<open>Inl\<close> carries the exception raised.\<close>

datatype error =
    AssertionError string
  | ValueError string
  | TypeError string
  | KeyError string
  | AttributeError string
  | ValidationError string
  | OtherError string

text \<open>\<open>d[k]\<close>: the stored value, or \<open>KeyError\<close> when the key is absent.\<close>

definition dict_getitem :: "(string \<times> 'v) list \<Rightarrow> string \<Rightarrow> error + 'v" where
  "dict_getitem d k = (case map_of d k of None \<Rightarrow> Inl (KeyError k) | Some v \<Rightarrow> Inr v)"

text \<open>
  \<open>d |= e\<close> (and \<open>d.update(e)\<close>): every item of \<open>e\<close> is stored into \<open>d\<close> in turn. A key
  that \<open>d\<close> already has keeps its position and takes the new value; a new key is appended.
\<close>

definition dict_update :: "(string \<times> 'v) list \<Rightarrow> (string \<times> 'v) list \<Rightarrow> (string \<times> 'v) list" where
  "dict_update d e = foldl (\<lambda>acc kv. AList.update (fst kv) (snd kv) acc) d e"


section \<open>Cost of a completion (\<open>mirascope/core/openai/_utils.py\<close>)\<close>

text \<open>
  \<open>CompletionUsage\<close> of the vendor SDK: three token counts. Python floats are idealised
  as real numbers; the prices are the decimal literals of the source.
\<close>

record completion_usage =
  prompt_tokens :: int
  completion_tokens :: int
  total_tokens :: int

definition pricing :: "(string \<times> (string \<times> real) list) list" where
  "pricing =
    [(''gpt-4o'', [(''prompt'', 0.000005), (''completion'', 0.000015)]),
     (''gpt-4o-2024-05-13'', [(''prompt'', 0.000005), (''completion'', 0.000015)]),
     (''gpt-4-turbo'', [(''prompt'', 0.00001), (''completion'', 0.00003)]),
     (''gpt-4-turbo-2024-04-09'', [(''prompt'', 0.00001), (''completion'', 0.00003)]),
     (''gpt-3.5-turbo-0125'', [(''prompt'', 0.0000005), (''completion'', 0.0000015)]),
     (''gpt-3.5-turbo-1106'', [(''prompt'', 0.000001), (''completion'', 0.000002)]),
     (''gpt-4-1106-preview'', [(''prompt'', 0.00001), (''completion'', 0.00003)]),
     (''gpt-4'', [(''prompt'', 0.000003), (''completion'', 0.000006)]),
     (''gpt-3.5-turbo-4k'', [(''prompt'', 0.000015), (''completion'', 0.00002)]),
     (''gpt-3.5-turbo-16k'', [(''prompt'', 0.000003), (''completion'', 0.000004)]),
     (''gpt-4-8k'', [(''prompt'', 0.000003), (''completion'', 0.000006)]),
     (''gpt-4-32k'', [(''prompt'', 0.000006), (''completion'', 0.000012)]),
     (''text-embedding-3-small'', [(''prompt'', 0.00000002), (''completion'', 0.00000002)]),
     (''text-embedding-ada-002'', [(''prompt'', 0.0000001), (''completion'', 0.0000001)]),
     (''text-embedding-3-large'', [(''prompt'', 0.00000013), (''completion'', 0.00000013)])]"

text \<open>
  \<open>openai_api_calculate_cost(usage, model)\<close>. The \<open>try\<close> around \<open>pricing[model]\<close> turns a
  \<open>KeyError\<close> into the result \<open>None\<close>; the two inner subscripts are outside the \<open>try\<close>.
  The caller-side default of \<open>model\<close> is \<open>default_model\<close>.
\<close>

definition default_model :: string where
  "default_model = ''gpt-3.5-turbo-16k''"

definition openai_api_calculate_cost :: "completion_usage option \<Rightarrow> string \<Rightarrow> error + real option" where
  "openai_api_calculate_cost usage model =
     (case usage of
        None \<Rightarrow> Inr None
      | Some u \<Rightarrow>
          (case dict_getitem pricing model of
             Inl (KeyError k) \<Rightarrow> Inr None
           | Inl e \<Rightarrow> Inl e
           | Inr model_pricing \<Rightarrow>
               (case dict_getitem model_pricing ''prompt'' of
                  Inl e \<Rightarrow> Inl e
                | Inr prompt_price \<Rightarrow>
                    (case dict_getitem model_pricing ''completion'' of
                       Inl e \<Rightarrow> Inl e
                     | Inr completion_price \<Rightarrow>
                         (let prompt_cost = real_of_int (prompt_tokens u) * prompt_price;
                              completion_cost = real_of_int (completion_tokens u) * completion_price;
                              total_cost = prompt_cost + completion_cost
                          in Inr (Some total_cost))))))"


section \<open>Class variables without the key (\<open>mirascope/base/ops_utils.py\<close>)\<close>

text \<open>
  What \<open>get_class_vars\<close> reads of the class of a \<open>BaseModel\<close> instance: the names in
  \<open>__class_vars__\<close>, in the order the iteration visits them, and the attributes that
  \<open>getattr\<close> resolves on the class. \<open>getattr\<close> raises \<open>AttributeError\<close> for a name that
  is declared but has no value.
\<close>

record pyclass =
  class_var_names :: "string list"
  class_attrs :: pydict

definition getattr :: "pyclass \<Rightarrow> string \<Rightarrow> error + pyval" where
  "getattr c name =
     (case map_of (class_attrs c) name of
        None \<Rightarrow> Inl (AttributeError name)
      | Some v \<Rightarrow> Inr v)"

text \<open>The \<open>for\<close> loop of \<open>get_class_vars\<close>, with the dictionary being filled as accumulator.\<close>

fun get_class_vars_loop :: "pyclass \<Rightarrow> string list \<Rightarrow> pydict \<Rightarrow> error + pydict" where
  "get_class_vars_loop c [] class_vars = Inr class_vars"
| "get_class_vars_loop c (classvars # rest) class_vars =
     (if \<not> classvars = ''api_key'' then
        (case getattr c classvars of
           Inl e \<Rightarrow> Inl e
         | Inr v \<Rightarrow> get_class_vars_loop c rest (AList.update classvars v class_vars))
      else get_class_vars_loop c rest class_vars)"

definition get_class_vars :: "pyclass \<Rightarrow> error + pydict" where
  "get_class_vars c = get_class_vars_loop c (class_var_names c) []"


section \<open>Materialising a response from a stream (\<open>mirascope/core/openai/stream.py\<close>)\<close>

text \<open>
  A tool call of the vendor SDK, and \<open>_construct_message_param\<close>, which builds the
  assistant message dictionary: \<open>role\<close> and \<open>content\<close> always, \<open>tool_calls\<close> only when
  the list given is non-empty.
\<close>

record tool_call =
  tool_call_id :: string
  function_name :: string
  function_arguments :: string

definition tool_call_param :: "tool_call \<Rightarrow> pyval" where
  "tool_call_param tc =
     VDict [(''type'', VStr ''function''),
            (''function'', VDict [(''arguments'', VStr (function_arguments tc)),
                                  (''name'', VStr (function_name tc))]),
            (''id'', VStr (tool_call_id tc))]"

definition construct_message_param :: "tool_call list option \<Rightarrow> string option \<Rightarrow> pydict" where
  "construct_message_param tool_calls content =
     (let message_param =
            [(''role'', VStr ''assistant''),
             (''content'', (case content of None \<Rightarrow> VNone | Some c \<Rightarrow> VStr c))]
      in (case tool_calls of
            None \<Rightarrow> message_param
          | Some [] \<Rightarrow> message_param
          | Some (tc # tcs) \<Rightarrow>
              AList.update ''tool_calls'' (VList (map tool_call_param (tc # tcs))) message_param))"

text \<open>
  The attributes of an \<open>OpenAIStream\<close> that \<open>construct_call_response\<close> reads.
  \<open>message_param\<close> is \<open>None\<close> while the object has no such attribute (\<open>hasattr\<close> is
  false); the base class sets it once the chunks have been aggregated. Token counts are
  integers or absent. Attributes that are only passed on are kept as opaque values.
\<close>

record openai_stream =
  message_param :: "pydict option"
  input_tokens :: "int option"
  output_tokens :: "int option"
  stream_id :: "string option"
  stream_model :: string
  finish_reasons :: "string list option"
  stream_metadata :: pyval
  stream_tool_types :: pyval
  stream_prompt_template :: "string option"
  stream_fn_args :: "pydict option"
  stream_dynamic_config :: pyval
  stream_messages :: "pydict list"
  stream_call_params :: pydict
  stream_call_kwargs :: pydict
  stream_user_message_param :: pyval
  stream_start_time :: real
  stream_end_time :: real

text \<open>
  The vendor's \<open>Choice\<close> and \<open>ChatCompletion\<close> and the library's \<open>OpenAICallResponse\<close>
  as records of the fields the code sets.
\<close>

record choice =
  finish_reason :: string
  choice_index :: nat
  choice_message :: pydict

record chat_completion =
  completion_id :: string
  completion_model :: string
  choices :: "choice list"
  created :: int
  completion_object :: string
  completion_usage :: "completion_usage option"

record openai_call_response =
  cr_metadata :: pyval
  cr_response :: chat_completion
  cr_tool_types :: pyval
  cr_prompt_template :: "string option"
  cr_fn_args :: pydict
  cr_dynamic_config :: pyval
  cr_messages :: "pydict list"
  cr_call_params :: pydict
  cr_call_kwargs :: pydict
  cr_user_message_param :: pyval
  cr_start_time :: real
  cr_end_time :: real

text \<open>\<open>d.get(k, default)\<close>.\<close>

definition dict_get :: "(string \<times> 'v) list \<Rightarrow> string \<Rightarrow> 'v \<Rightarrow> 'v" where
  "dict_get d k dflt = (case map_of d k of None \<Rightarrow> dflt | Some v \<Rightarrow> v)"

text \<open>Truth value of an optional integer: \<open>None\<close> and \<open>0\<close> are false.\<close>

definition int_truthy :: "int option \<Rightarrow> bool" where
  "int_truthy x = (case x of None \<Rightarrow> False | Some n \<Rightarrow> n \<noteq> 0)"

text \<open>\<open>int(x or 0)\<close>.\<close>

definition int_or_0 :: "int option \<Rightarrow> int" where
  "int_or_0 x = (case x of None \<Rightarrow> 0 | Some n \<Rightarrow> n)"

text \<open>
  \<open>ChatCompletionMessage.model_validate\<close> and the constructors \<open>Choice\<close>,
  \<open>ChatCompletion\<close> and \<open>OpenAICallResponse\<close> are pydantic models that live outside
  these source files: each validates what it is given and raises when it rejects it
  (\<open>Choice\<close>, for one, admits only the finish reasons of its \<open>Literal\<close> type). They are
  parameters of the model: the message validator returns the validated message or the
  exception, the other three return the exception raised, if any, for the object built.
\<close>

record validators =
  message_model_validate :: "pydict \<Rightarrow> error + pydict"
  choice_validate :: "choice \<Rightarrow> error option"
  chat_completion_validate :: "chat_completion \<Rightarrow> error option"
  call_response_validate :: "openai_call_response \<Rightarrow> error option"

text \<open>
  The pieces that \<open>construct_call_response\<close> builds, in the order of the source: the
  dictionary \<open>message\<close>, \<open>usage\<close>, the finish reason
  \<open>self.finish_reasons[0] if self.finish_reasons else "stop"\<close>, the single choice, the
  completion and the response.
\<close>

definition response_message :: "pyval \<Rightarrow> pydict \<Rightarrow> pydict" where
  "response_message role mp =
     [(''role'', role),
      (''content'', dict_get mp ''content'' (VStr [])),
      (''tool_calls'', dict_get mp ''tool_calls'' (VList []))]"

definition response_usage :: "openai_stream \<Rightarrow> completion_usage option" where
  "response_usage s =
     (if \<not> int_truthy (input_tokens s) \<and> \<not> int_truthy (output_tokens s) then None
      else Some \<lparr>prompt_tokens = int_or_0 (input_tokens s),
                 completion_tokens = int_or_0 (output_tokens s),
                 total_tokens = int_or_0 (input_tokens s) + int_or_0 (output_tokens s)\<rparr>)"

definition first_finish_reason :: "openai_stream \<Rightarrow> string" where
  "first_finish_reason s =
     (case finish_reasons s of
        None \<Rightarrow> ''stop''
      | Some [] \<Rightarrow> ''stop''
      | Some (r # rs) \<Rightarrow> r)"

definition response_choice :: "openai_stream \<Rightarrow> pydict \<Rightarrow> choice" where
  "response_choice s validated_message =
     \<lparr>finish_reason = first_finish_reason s,
      choice_index = 0,
      choice_message = validated_message\<rparr>"

definition response_completion :: "openai_stream \<Rightarrow> choice \<Rightarrow> chat_completion" where
  "response_completion s ch =
     \<lparr>completion_id = (case stream_id s of None \<Rightarrow> [] | Some i \<Rightarrow> i),
      completion_model = stream_model s,
      choices = [ch],
      created = 0,
      completion_object = ''chat.completion'',
      completion_usage = response_usage s\<rparr>"

definition call_response_of :: "openai_stream \<Rightarrow> chat_completion \<Rightarrow> openai_call_response" where
  "call_response_of s completion =
     \<lparr>cr_metadata = stream_metadata s,
      cr_response = completion,
      cr_tool_types = stream_tool_types s,
      cr_prompt_template = stream_prompt_template s,
      cr_fn_args = (case stream_fn_args s of None \<Rightarrow> [] | Some a \<Rightarrow> a),
      cr_dynamic_config = stream_dynamic_config s,
      cr_messages = stream_messages s,
      cr_call_params = stream_call_params s,
      cr_call_kwargs = stream_call_kwargs s,
      cr_user_message_param = stream_user_message_param s,
      cr_start_time = stream_start_time s,
      cr_end_time = stream_end_time s\<rparr>"

text \<open>
  \<open>construct_call_response(self)\<close>: the guard on \<open>message_param\<close>, the subscript
  \<open>self.message_param["role"]\<close>, then the four validating constructions, innermost
  first, each of which may raise.
\<close>

definition construct_call_response :: "validators \<Rightarrow> openai_stream \<Rightarrow> error + openai_call_response" where
  "construct_call_response v s =
     (case message_param s of
        None \<Rightarrow> Inl (ValueError ''No stream response, check if the stream has been consumed.'')
      | Some mp \<Rightarrow>
          (case dict_getitem mp ''role'' of
             Inl e \<Rightarrow> Inl e
           | Inr role \<Rightarrow>
               (case message_model_validate v (response_message role mp) of
                  Inl e \<Rightarrow> Inl e
                | Inr validated_message \<Rightarrow>
                    (case choice_validate v (response_choice s validated_message) of
                       Some e \<Rightarrow> Inl e
                     | None \<Rightarrow>
                         (let completion = response_completion s (response_choice s validated_message)
                          in (case chat_completion_validate v completion of
                                Some e \<Rightarrow> Inl e
                              | None \<Rightarrow>
                                  (case call_response_validate v (call_response_of s completion) of
                                     Some e \<Rightarrow> Inl e
                                   | None \<Rightarrow> Inr (call_response_of s completion))))))))"


section \<open>Call setup (\<open>setup_call\<close> and \<open>setup_extract\<close> in \<open>mirascope/core/openai/_utils.py\<close>)\<close>

text \<open>
  A tool given to \<open>setup_call\<close> is a class or a plain function; \<open>inspect.isclass\<close> tells
  them apart. A converted tool type offers the two class methods that the code calls,
  \<open>tool_schema()\<close> and \<open>model_json_schema()\<close>, kept here as their results.
\<close>

datatype ('c, 'f) tool_source = ToolClass 'c | ToolFunction 'f

fun isclass :: "('c, 'f) tool_source \<Rightarrow> bool" where
  "isclass (ToolClass c) = True"
| "isclass (ToolFunction f) = False"

record openai_tool =
  tool_schema :: pyval
  model_json_schema :: pyval

text \<open>
  \<open>OpenAICallFunctionReturn\<close>, the dictionary a decorated function may return; each of
  its four keys may be absent (\<open>None\<close> here).
\<close>

record ('c, 'f) function_return =
  fr_computed_fields :: "pydict option"
  fr_tools :: "('c, 'f) tool_source list option"
  fr_messages :: "pydict list option"
  fr_call_params :: "pydict option"

text \<open>
  Functions that the code calls and that live outside these source files are parameters
  of the model: the template parser and the two tool converters of the base package
  (\<open>_utils\<close>), and \<open>json.dumps(_, indent=2)\<close> and \<open>textwrap.dedent\<close> of the standard
  library. The parser may raise; the others are taken to return.
\<close>

record ('c, 'f) externals =
  parse_prompt_messages :: "string list \<Rightarrow> string \<Rightarrow> pydict \<Rightarrow> error + pydict list"
  convert_base_model_to_base_tool :: "'c \<Rightarrow> openai_tool"
  convert_function_to_base_tool :: "'f \<Rightarrow> openai_tool"
  json_dumps :: "pyval \<Rightarrow> string"
  dedent :: "string \<Rightarrow> string"

text \<open>Truth value of an optional list or dictionary: \<open>None\<close> and the empty one are false.\<close>

definition truthy :: "'x list option \<Rightarrow> bool" where
  "truthy x = (case x of None \<Rightarrow> False | Some xs \<Rightarrow> xs \<noteq> [])"

text \<open>
  The last part of \<open>setup_call\<close>: the tools are converted and their schemas stored under
  the key \<open>tools\<close> of the call keyword arguments.
\<close>

definition convert_tool :: "('c, 'f) externals \<Rightarrow> ('c, 'f) tool_source \<Rightarrow> openai_tool" where
  "convert_tool ext tool =
     (case tool of
        ToolClass c \<Rightarrow> convert_base_model_to_base_tool ext c
      | ToolFunction f \<Rightarrow> convert_function_to_base_tool ext f)"

definition setup_tools ::
  "('c, 'f) externals \<Rightarrow> ('c, 'f) tool_source list option \<Rightarrow> pydict
     \<Rightarrow> openai_tool list option \<times> pydict" where
  "setup_tools ext tools call_kwargs =
     (if truthy tools then
        (let tool_types = map (convert_tool ext) (the tools)
         in (Some tool_types,
             AList.update ''tools'' (VList (map tool_schema tool_types)) call_kwargs))
      else (None, call_kwargs))"

text \<open>
  \<open>setup_call(fn, fn_args, fn_return, tools, call_params)\<close>. Of \<open>fn\<close> only
  \<open>inspect.getdoc(fn)\<close> is used, so the docstring stands for it. \<open>fn_args |= ...\<close>
  changes the caller's dictionary in place: the first component of the result is the
  dictionary \<open>fn_args\<close> as the call leaves it; the second is the exception raised or the
  tuple returned.
\<close>

definition setup_call ::
  "('c, 'f) externals \<Rightarrow> string option \<Rightarrow> pydict \<Rightarrow> ('c, 'f) function_return option
     \<Rightarrow> ('c, 'f) tool_source list option \<Rightarrow> pydict
     \<Rightarrow> pydict \<times> (error + string option \<times> pydict list \<times> openai_tool list option \<times> pydict)" where
  "setup_call ext getdoc_fn fn_args fn_return tools call_params =
     (let call_kwargs = call_params;
          computed_fields = (case fn_return of None \<Rightarrow> None | Some fr \<Rightarrow> fr_computed_fields fr);
          tools = (case fn_return of
                     None \<Rightarrow> tools
                   | Some fr \<Rightarrow> (case fr_tools fr of None \<Rightarrow> tools | Some ts \<Rightarrow> Some ts));
          messages = (case fn_return of None \<Rightarrow> None | Some fr \<Rightarrow> fr_messages fr);
          dynamic_call_params = (case fn_return of None \<Rightarrow> None | Some fr \<Rightarrow> fr_call_params fr);
          call_kwargs = (if truthy dynamic_call_params
                         then dict_update call_kwargs (the dynamic_call_params)
                         else call_kwargs)
      in if \<not> truthy messages then
           (case getdoc_fn of
              None \<Rightarrow> (fn_args, Inl (AssertionError ''The function must have a docstring.''))
            | Some prompt_template \<Rightarrow>
                (let fn_args = (if truthy computed_fields
                                then dict_update fn_args (the computed_fields)
                                else fn_args)
                 in (case parse_prompt_messages ext
                            [''system'', ''user'', ''assistant'', ''tool''] prompt_template fn_args of
                       Inl e \<Rightarrow> (fn_args, Inl e)
                     | Inr messages \<Rightarrow>
                         (case setup_tools ext tools call_kwargs of
                            (tool_types, call_kwargs) \<Rightarrow>
                              (fn_args, Inr (Some prompt_template, messages, tool_types, call_kwargs))))))
         else
           (case setup_tools ext tools call_kwargs of
              (tool_types, call_kwargs) \<Rightarrow>
                (fn_args, Inr (None, the messages, tool_types, call_kwargs))))"

text \<open>
  The condition of \<open>setup_extract\<close>,
  \<open>response_format and "type" in response_format and response_format["type"] == "json_object"\<close>,
  on any Python value: truth value, the \<open>in\<close> operator and subscription by the string
  \<open>type\<close>, each with the \<open>TypeError\<close> it raises on a value that does not support it.
\<close>

fun pyval_truthy :: "pyval \<Rightarrow> bool" where
  "pyval_truthy VNone = False"
| "pyval_truthy (VBool b) = b"
| "pyval_truthy (VInt n) = (n \<noteq> 0)"
| "pyval_truthy (VStr s) = (s \<noteq> [])"
| "pyval_truthy (VList xs) = (xs \<noteq> [])"
| "pyval_truthy (VDict d) = (d \<noteq> [])"

fun is_prefix :: "string \<Rightarrow> string \<Rightarrow> bool" where
  "is_prefix [] s = True"
| "is_prefix (c # cs) [] = False"
| "is_prefix (c # cs) (d # ds) = (c = d \<and> is_prefix cs ds)"

fun is_substring :: "string \<Rightarrow> string \<Rightarrow> bool" where
  "is_substring sub [] = (sub = [])"
| "is_substring sub (c # cs) = (is_prefix sub (c # cs) \<or> is_substring sub cs)"

fun type_in :: "pyval \<Rightarrow> error + bool" where
  "type_in (VDict d) = Inr (map_of d ''type'' \<noteq> None)"
| "type_in (VStr s) = Inr (is_substring ''type'' s)"
| "type_in (VList xs) = Inr (VStr ''type'' \<in> set xs)"
| "type_in v = Inl (TypeError ''argument is not iterable'')"

fun getitem_type :: "pyval \<Rightarrow> error + pyval" where
  "getitem_type (VDict d) = dict_getitem d ''type''"
| "getitem_type (VStr s) = Inl (TypeError ''string indices must be integers'')"
| "getitem_type (VList xs) = Inl (TypeError ''list indices must be integers or slices'')"
| "getitem_type v = Inl (TypeError ''object is not subscriptable'')"

definition json_mode_of :: "pyval \<Rightarrow> error + bool" where
  "json_mode_of response_format =
     (if \<not> pyval_truthy response_format then Inr False
      else (case type_in response_format of
              Inl e \<Rightarrow> Inl e
            | Inr False \<Rightarrow> Inr False
            | Inr True \<Rightarrow>
                (case getitem_type response_format of
                   Inl e \<Rightarrow> Inl e
                 | Inr v \<Rightarrow> Inr (v = VStr ''json_object''))))"

text \<open>
  The text handed to \<open>dedent\<close>: the instruction line behind twelve blanks, a line of
  twenty-four blanks, and the schema text behind twelve blanks.
\<close>

definition extract_instruction :: "string \<Rightarrow> string" where
  "extract_instruction schema_text =
     replicate 12 (CHR '' '')
       @ ''Extract a valid JSON object instance from the content using this schema:''
       @ [CHR 0x0A] @ replicate 24 (CHR '' '') @ [CHR 0x0A]
       @ replicate 12 (CHR '' '') @ schema_text"

text \<open>
  \<open>setup_extract(fn, fn_args, fn_return, tool, call_params)\<close>. Unpacking the third
  component of \<open>setup_call\<close>'s result into \<open>[tool_type]\<close> raises unless it is a list of
  exactly one tool type. The result tuple is \<open>(json_mode, messages, call_kwargs)\<close>.
\<close>

definition setup_extract ::
  "('c, 'f) externals \<Rightarrow> string option \<Rightarrow> pydict \<Rightarrow> ('c, 'f) function_return option
     \<Rightarrow> ('c, 'f) tool_source \<Rightarrow> pydict
     \<Rightarrow> pydict \<times> (error + bool \<times> pydict list \<times> pydict)" where
  "setup_extract ext getdoc_fn fn_args fn_return tool call_params =
     (case setup_call ext getdoc_fn fn_args fn_return (Some [tool]) call_params of
        (fn_args, Inl e) \<Rightarrow> (fn_args, Inl e)
      | (fn_args, Inr (_, messages, tool_types, call_kwargs)) \<Rightarrow>
          (case tool_types of
             None \<Rightarrow> (fn_args, Inl (TypeError ''cannot unpack non-iterable NoneType object''))
           | Some [] \<Rightarrow> (fn_args, Inl (ValueError ''not enough values to unpack''))
           | Some (t1 # t2 # ts) \<Rightarrow> (fn_args, Inl (ValueError ''too many values to unpack''))
           | Some [tool_type] \<Rightarrow>
               (let response_format = dict_get call_kwargs ''response_format'' VNone
                in (case json_mode_of response_format of
                      Inl e \<Rightarrow> (fn_args, Inl e)
                    | Inr json_mode \<Rightarrow>
                        if json_mode then
                          (fn_args,
                           Inr (json_mode,
                                messages @
                                  [[(''role'', VStr ''user''),
                                    (''content'',
                                     VStr (dedent ext (extract_instruction
                                       (json_dumps ext (model_json_schema tool_type)))))]],
                                AList.update ''tools'' VNone call_kwargs))
                        else
                          (fn_args,
                           Inr (json_mode,
                                messages,
                                AList.update ''tool_choice'' (VStr ''required'')
                                  (AList.update ''tools'' (VList [tool_schema tool_type])
                                     call_kwargs)))))))"


text \<open>
  The call parameters once the dynamic ones have been merged over the static ones (the
  first lines of \<open>setup_call\<close>), before the key \<open>tools\<close> is written.
\<close>

definition merged_call_params :: "pydict \<Rightarrow> ('c, 'f) function_return option \<Rightarrow> pydict" where
  "merged_call_params call_params fn_return =
     (case fn_return of
        None \<Rightarrow> call_params
      | Some fr \<Rightarrow>
          (case fr_call_params fr of
             None \<Rightarrow> call_params
           | Some dynamic_call_params \<Rightarrow> dict_update call_params dynamic_call_params))"


text \<open>
  The tools that \<open>setup_call\<close> works with when \<open>setup_extract\<close> calls it:
  \<open>fn_return.get("tools", tools)\<close> with \<open>tools = [tool]\<close>.
\<close>

definition tools_in_effect ::
  "('c, 'f) function_return option \<Rightarrow> ('c, 'f) tool_source \<Rightarrow> ('c, 'f) tool_source list" where
  "tools_in_effect fn_return tool =
     (case fn_return of
        None \<Rightarrow> [tool]
      | Some fr \<Rightarrow> (case fr_tools fr of None \<Rightarrow> [tool] | Some ts \<Rightarrow> ts))"

text \<open>
  In the words of the specification: the call parameters contain a \<open>response_format\<close>
  whose \<open>type\<close> field equals \<open>json_object\<close>. And the typing of \<open>response_format\<close> in
  the call parameters: absent, \<open>None\<close> or a dictionary.
\<close>

definition json_object_requested :: "pydict \<Rightarrow> bool" where
  "json_object_requested params =
     (case map_of params ''response_format'' of
        Some (VDict d) \<Rightarrow> map_of d ''type'' = Some (VStr ''json_object'')
      | _ \<Rightarrow> False)"

definition response_format_typed :: "pydict \<Rightarrow> bool" where
  "response_format_typed params =
     (case map_of params ''response_format'' of
        None \<Rightarrow> True
      | Some VNone \<Rightarrow> True
      | Some (VDict d) \<Rightarrow> True
      | Some v \<Rightarrow> False)"


section \<open>Hook injection (\<open>mirascope_span\<close> in \<open>mirascope/base/ops_utils.py\<close>)\<close>

text \<open>
  What \<open>handle_before_call\<close> hands back: Python's \<open>None\<close> (also the value of
  \<open>before_call\<close> when no hook is supplied), a plain value, or a context manager, given
  by the value its \<open>__enter__\<close> returns. A context manager is taken to enter without
  raising and not to swallow exceptions on exit. \<open>passed_value\<close> is what the after hook
  receives as its fourth argument.
\<close>

datatype 'b before_call = NoValue | PlainValue 'b | ContextManager 'b

fun passed_value :: "'b before_call \<Rightarrow> 'b option" where
  "passed_value NoValue = None"
| "passed_value (PlainValue v) = Some v"
| "passed_value (ContextManager v) = Some v"

text \<open>
  The third argument of the after hook: the result of a plain or awaited call, or the
  list \<open>output\<close> accumulated by a generator wrapper.
\<close>

datatype 'r call_result = Result 'r | Output "'r list"

text \<open>
  A wrapped call is observed through the events it produces, in order: calls of the two
  hooks with their arguments (the wrapped function itself, which both hooks also
  receive, is fixed and left out), entering and leaving the context manager, and values
  yielded to the caller.
\<close>

datatype ('a, 'b, 'r) event =
    BeforeCall 'a pydict
  | Enter 'b
  | Yield 'r
  | AfterCall 'a "'r call_result" "'b option" pydict
  | Exit 'b

text \<open>
  The hooks: each receives the instance and the keyword arguments
  \<open>**kwargs, **custom_kwargs\<close> and may raise. The value an after hook returns is
  discarded, so only whether it raises is kept.
\<close>

type_synonym ('a, 'b) before_hook = "'a \<Rightarrow> pydict \<Rightarrow> error + 'b before_call"

type_synonym ('a, 'b, 'r) after_hook = "'a \<Rightarrow> 'r call_result \<Rightarrow> 'b option \<Rightarrow> pydict \<Rightarrow> error option"

text \<open>
  \<open>f(**kwargs, **custom_kwargs)\<close>: a key that occurs in both dictionaries is a
  \<open>TypeError\<close>.
\<close>

definition merge_keywords :: "pydict \<Rightarrow> pydict \<Rightarrow> error + pydict" where
  "merge_keywords kwargs custom_kwargs =
     (if set (map fst kwargs) \<inter> set (map fst custom_kwargs) \<noteq> {}
      then Inl (TypeError ''got multiple values for keyword argument'')
      else Inr (kwargs @ custom_kwargs))"

text \<open>
  The first statement of each wrapper,
  \<open>handle_before_call(self, fn, **kwargs, **custom_kwargs) if handle_before_call is not None else None\<close>,
  and the guarded call of the after hook that ends each branch.
\<close>

definition call_before ::
  "('a, 'b) before_hook option \<Rightarrow> 'a \<Rightarrow> pydict \<Rightarrow> pydict
     \<Rightarrow> ('a, 'b, 'r) event list \<times> (error + 'b before_call)" where
  "call_before handle_before_call self kwargs custom_kwargs =
     (case handle_before_call of
        None \<Rightarrow> ([], Inr NoValue)
      | Some hook \<Rightarrow>
          (case merge_keywords kwargs custom_kwargs of
             Inl e \<Rightarrow> ([], Inl e)
           | Inr kw \<Rightarrow> ([BeforeCall self kw], hook self kw)))"

definition call_after ::
  "('a, 'b, 'r) after_hook option \<Rightarrow> 'a \<Rightarrow> 'r call_result \<Rightarrow> 'b option \<Rightarrow> pydict \<Rightarrow> pydict
     \<Rightarrow> ('a, 'b, 'r) event list \<times> error option" where
  "call_after handle_after_call self result before_value kwargs custom_kwargs =
     (case handle_after_call of
        None \<Rightarrow> ([], None)
      | Some hook \<Rightarrow>
          (case merge_keywords kwargs custom_kwargs of
             Inl e \<Rightarrow> ([], Some e)
           | Inr kw \<Rightarrow> ([AfterCall self result before_value kw], hook self result before_value kw)))"

text \<open>
  \<open>wrapper\<close>, for a plain method, and \<open>wrapper_async\<close>, whose body is the same with the
  call awaited: the events and the value returned or exception raised.
\<close>

definition wrapper ::
  "('a \<Rightarrow> 'p \<Rightarrow> pydict \<Rightarrow> error + 'r) \<Rightarrow> ('a, 'b) before_hook option
     \<Rightarrow> ('a, 'b, 'r) after_hook option \<Rightarrow> pydict
     \<Rightarrow> 'a \<Rightarrow> 'p \<Rightarrow> pydict \<Rightarrow> ('a, 'b, 'r) event list \<times> (error + 'r)" where
  "wrapper fn handle_before_call handle_after_call custom_kwargs self args kwargs =
     (case call_before handle_before_call self kwargs custom_kwargs of
        (t0, Inl e) \<Rightarrow> (t0, Inl e)
      | (t0, Inr before_call) \<Rightarrow>
          (case before_call of
             ContextManager result_before_call \<Rightarrow>
               (case fn self args kwargs of
                  Inl e \<Rightarrow> (t0 @ [Enter result_before_call, Exit result_before_call], Inl e)
                | Inr result \<Rightarrow>
                    (case call_after handle_after_call self (Result result)
                            (Some result_before_call) kwargs custom_kwargs of
                       (t1, Some e) \<Rightarrow>
                         (t0 @ [Enter result_before_call] @ t1 @ [Exit result_before_call], Inl e)
                     | (t1, None) \<Rightarrow>
                         (t0 @ [Enter result_before_call] @ t1 @ [Exit result_before_call], Inr result)))
           | _ \<Rightarrow>
               (case fn self args kwargs of
                  Inl e \<Rightarrow> (t0, Inl e)
                | Inr result \<Rightarrow>
                    (case call_after handle_after_call self (Result result)
                            (passed_value before_call) kwargs custom_kwargs of
                       (t1, Some e) \<Rightarrow> (t0 @ t1, Inl e)
                     | (t1, None) \<Rightarrow> (t0 @ t1, Inr result)))))"

definition wrapper_async ::
  "('a \<Rightarrow> 'p \<Rightarrow> pydict \<Rightarrow> error + 'r) \<Rightarrow> ('a, 'b) before_hook option
     \<Rightarrow> ('a, 'b, 'r) after_hook option \<Rightarrow> pydict
     \<Rightarrow> 'a \<Rightarrow> 'p \<Rightarrow> pydict \<Rightarrow> ('a, 'b, 'r) event list \<times> (error + 'r)" where
  "wrapper_async fn handle_before_call handle_after_call custom_kwargs self args kwargs =
     (case call_before handle_before_call self kwargs custom_kwargs of
        (t0, Inl e) \<Rightarrow> (t0, Inl e)
      | (t0, Inr before_call) \<Rightarrow>
          (case before_call of
             ContextManager result_before_call \<Rightarrow>
               (case fn self args kwargs of
                  Inl e \<Rightarrow> (t0 @ [Enter result_before_call, Exit result_before_call], Inl e)
                | Inr result \<Rightarrow>
                    (case call_after handle_after_call self (Result result)
                            (Some result_before_call) kwargs custom_kwargs of
                       (t1, Some e) \<Rightarrow>
                         (t0 @ [Enter result_before_call] @ t1 @ [Exit result_before_call], Inl e)
                     | (t1, None) \<Rightarrow>
                         (t0 @ [Enter result_before_call] @ t1 @ [Exit result_before_call], Inr result)))
           | _ \<Rightarrow>
               (case fn self args kwargs of
                  Inl e \<Rightarrow> (t0, Inl e)
                | Inr result \<Rightarrow>
                    (case call_after handle_after_call self (Result result)
                            (passed_value before_call) kwargs custom_kwargs of
                       (t1, Some e) \<Rightarrow> (t0 @ t1, Inl e)
                     | (t1, None) \<Rightarrow> (t0 @ t1, Inr result)))))"

text \<open>
  A generator method, iterated until it ends, is the list of values it yields and the
  exception that ends it, if any. The loop
  \<open>for value in result: output.append(value); yield value\<close> of the generator wrappers
  appends each value to \<open>output\<close> and yields it to the caller.
\<close>

fun for_loop ::
  "'r list \<Rightarrow> 'r list \<Rightarrow> ('a, 'b, 'r) event list \<Rightarrow> 'r list \<times> ('a, 'b, 'r) event list" where
  "for_loop [] acc trace = (acc, trace)"
| "for_loop (v # rest) acc trace = for_loop rest (acc @ [v]) (trace @ [Yield v])"

text \<open>
  \<open>wrapper_generator\<close> and \<open>wrapper_generator_async\<close> (the same body with
  \<open>async for\<close>), iterated by the caller until they end: the events and the exception
  raised, if any.
\<close>

definition wrapper_generator ::
  "('a \<Rightarrow> 'p \<Rightarrow> pydict \<Rightarrow> 'r list \<times> error option) \<Rightarrow> ('a, 'b) before_hook option
     \<Rightarrow> ('a, 'b, 'r) after_hook option \<Rightarrow> pydict
     \<Rightarrow> 'a \<Rightarrow> 'p \<Rightarrow> pydict \<Rightarrow> ('a, 'b, 'r) event list \<times> error option" where
  "wrapper_generator fn handle_before_call handle_after_call custom_kwargs self args kwargs =
     (case call_before handle_before_call self kwargs custom_kwargs of
        (t0, Inl e) \<Rightarrow> (t0, Some e)
      | (t0, Inr before_call) \<Rightarrow>
          (case before_call of
             ContextManager result_before_call \<Rightarrow>
               (case fn self args kwargs of
                  (items, raised) \<Rightarrow>
                    (case for_loop items [] (t0 @ [Enter result_before_call]) of
                       (out, t1) \<Rightarrow>
                         (case raised of
                            Some e \<Rightarrow> (t1 @ [Exit result_before_call], Some e)
                          | None \<Rightarrow>
                              (case call_after handle_after_call self (Output out)
                                      (Some result_before_call) kwargs custom_kwargs of
                                 (t2, r) \<Rightarrow> (t1 @ t2 @ [Exit result_before_call], r)))))
           | _ \<Rightarrow>
               (case fn self args kwargs of
                  (items, raised) \<Rightarrow>
                    (case for_loop items [] t0 of
                       (out, t1) \<Rightarrow>
                         (case raised of
                            Some e \<Rightarrow> (t1, Some e)
                          | None \<Rightarrow>
                              (case call_after handle_after_call self (Output out)
                                      (passed_value before_call) kwargs custom_kwargs of
                                 (t2, r) \<Rightarrow> (t1 @ t2, r)))))))"

definition wrapper_generator_async ::
  "('a \<Rightarrow> 'p \<Rightarrow> pydict \<Rightarrow> 'r list \<times> error option) \<Rightarrow> ('a, 'b) before_hook option
     \<Rightarrow> ('a, 'b, 'r) after_hook option \<Rightarrow> pydict
     \<Rightarrow> 'a \<Rightarrow> 'p \<Rightarrow> pydict \<Rightarrow> ('a, 'b, 'r) event list \<times> error option" where
  "wrapper_generator_async fn handle_before_call handle_after_call custom_kwargs self args kwargs =
     (case call_before handle_before_call self kwargs custom_kwargs of
        (t0, Inl e) \<Rightarrow> (t0, Some e)
      | (t0, Inr before_call) \<Rightarrow>
          (case before_call of
             ContextManager result_before_call \<Rightarrow>
               (case fn self args kwargs of
                  (items, raised) \<Rightarrow>
                    (case for_loop items [] (t0 @ [Enter result_before_call]) of
                       (out, t1) \<Rightarrow>
                         (case raised of
                            Some e \<Rightarrow> (t1 @ [Exit result_before_call], Some e)
                          | None \<Rightarrow>
                              (case call_after handle_after_call self (Output out)
                                      (Some result_before_call) kwargs custom_kwargs of
                                 (t2, r) \<Rightarrow> (t1 @ t2 @ [Exit result_before_call], r)))))
           | _ \<Rightarrow>
               (case fn self args kwargs of
                  (items, raised) \<Rightarrow>
                    (case for_loop items [] t0 of
                       (out, t1) \<Rightarrow>
                         (case raised of
                            Some e \<Rightarrow> (t1, Some e)
                          | None \<Rightarrow>
                              (case call_after handle_after_call self (Output out)
                                      (passed_value before_call) kwargs custom_kwargs of
                                 (t2, r) \<Rightarrow> (t1 @ t2, r)))))))"

text \<open>
  A method is one of four kinds of function, which \<open>inspect.isasyncgenfunction\<close>,
  \<open>inspect.iscoroutinefunction\<close> and \<open>inspect.isgeneratorfunction\<close> tell apart, and so
  are the four wrappers: \<open>wrapper\<close> is a \<open>def\<close> without \<open>yield\<close>, \<open>wrapper_async\<close> an
  \<open>async def\<close> without \<open>yield\<close>, \<open>wrapper_generator\<close> a \<open>def\<close> with \<open>yield\<close> and
  \<open>wrapper_generator_async\<close> an \<open>async def\<close> with \<open>yield\<close>.
\<close>

datatype convention = Plain | Coroutine | Generator | AsyncGenerator

datatype ('a, 'p, 'r) py_method =
    Function "'a \<Rightarrow> 'p \<Rightarrow> pydict \<Rightarrow> error + 'r"
  | CoroutineFunction "'a \<Rightarrow> 'p \<Rightarrow> pydict \<Rightarrow> error + 'r"
  | GeneratorFunction "'a \<Rightarrow> 'p \<Rightarrow> pydict \<Rightarrow> 'r list \<times> error option"
  | AsyncGeneratorFunction "'a \<Rightarrow> 'p \<Rightarrow> pydict \<Rightarrow> 'r list \<times> error option"

fun method_convention :: "('a, 'p, 'r) py_method \<Rightarrow> convention" where
  "method_convention (Function f) = Plain"
| "method_convention (CoroutineFunction f) = Coroutine"
| "method_convention (GeneratorFunction g) = Generator"
| "method_convention (AsyncGeneratorFunction g) = AsyncGenerator"

datatype ('a, 'p, 'b, 'r) wrapped =
    Wrapper "'a \<Rightarrow> 'p \<Rightarrow> pydict \<Rightarrow> ('a, 'b, 'r) event list \<times> (error + 'r)"
  | WrapperAsync "'a \<Rightarrow> 'p \<Rightarrow> pydict \<Rightarrow> ('a, 'b, 'r) event list \<times> (error + 'r)"
  | WrapperGenerator "'a \<Rightarrow> 'p \<Rightarrow> pydict \<Rightarrow> ('a, 'b, 'r) event list \<times> error option"
  | WrapperGeneratorAsync "'a \<Rightarrow> 'p \<Rightarrow> pydict \<Rightarrow> ('a, 'b, 'r) event list \<times> error option"

fun wrapped_convention :: "('a, 'p, 'b, 'r) wrapped \<Rightarrow> convention" where
  "wrapped_convention (Wrapper w) = Plain"
| "wrapped_convention (WrapperAsync w) = Coroutine"
| "wrapped_convention (WrapperGenerator w) = Generator"
| "wrapped_convention (WrapperGeneratorAsync w) = AsyncGenerator"

text \<open>
  \<open>mirascope_span(fn, handle_before_call, handle_after_call, **custom_kwargs)\<close>: the
  three tests in the order of the source, then the default.
\<close>

fun mirascope_span ::
  "('a, 'p, 'r) py_method \<Rightarrow> ('a, 'b) before_hook option \<Rightarrow> ('a, 'b, 'r) after_hook option
     \<Rightarrow> pydict \<Rightarrow> ('a, 'p, 'b, 'r) wrapped" where
  "mirascope_span (AsyncGeneratorFunction fn) handle_before_call handle_after_call custom_kwargs =
     WrapperGeneratorAsync
       (wrapper_generator_async fn handle_before_call handle_after_call custom_kwargs)"
| "mirascope_span (CoroutineFunction fn) handle_before_call handle_after_call custom_kwargs =
     WrapperAsync (wrapper_async fn handle_before_call handle_after_call custom_kwargs)"
| "mirascope_span (GeneratorFunction fn) handle_before_call handle_after_call custom_kwargs =
     WrapperGenerator (wrapper_generator fn handle_before_call handle_after_call custom_kwargs)"
| "mirascope_span (Function fn) handle_before_call handle_after_call custom_kwargs =
     Wrapper (wrapper fn handle_before_call handle_after_call custom_kwargs)"

text \<open>
  For stating what a trace contains: the events of entering and leaving the context
  manager, if there is one, and the values a trace yields to the caller, in order.
\<close>

fun enter_events :: "'b before_call \<Rightarrow> ('a, 'b, 'r) event list" where
  "enter_events (ContextManager v) = [Enter v]"
| "enter_events bc = []"

fun exit_events :: "'b before_call \<Rightarrow> ('a, 'b, 'r) event list" where
  "exit_events (ContextManager v) = [Exit v]"
| "exit_events bc = []"

fun yielded :: "('a, 'b, 'r) event list \<Rightarrow> 'r list" where
  "yielded [] = []"
| "yielded (Yield v # evs) = v # yielded evs"
| "yielded (ev # evs) = yielded evs"


section \<open>Example inputs\<close>

text \<open>
  Stand-ins for the external functions, used to run the definitions on concrete inputs:
  a parser that answers with one user message whose content is the value of the
  attribute \<open>genre\<close>, converters that build a tool type from a name, a constant
  \<open>json.dumps\<close> and an identity \<open>dedent\<close>.
\<close>

definition probe_parser :: "string list \<Rightarrow> string \<Rightarrow> pydict \<Rightarrow> error + pydict list" where
  "probe_parser roles template attrs =
     (case map_of attrs ''genre'' of
        None \<Rightarrow> Inl (KeyError ''genre'')
      | Some v \<Rightarrow> Inr [[(''role'', VStr ''user''), (''content'', v)]])"

definition probe_externals :: "(string, string) externals" where
  "probe_externals =
     \<lparr>parse_prompt_messages = probe_parser,
      convert_base_model_to_base_tool = (\<lambda>name. \<lparr>tool_schema = VDict [(''name'', VStr name)], model_json_schema = VDict [(''title'', VStr name)]\<rparr>),
      convert_function_to_base_tool = (\<lambda>name. \<lparr>tool_schema = VDict [(''name'', VStr name)], model_json_schema = VDict [(''title'', VStr name)]\<rparr>),
      json_dumps = (\<lambda>v. ''{}''),
      dedent = (\<lambda>s. s)\<rparr>"


text \<open>
  A \<open>json.dumps\<close> stand-in that shows which schema it was given, by its title.
\<close>

fun schema_title :: "pyval \<Rightarrow> string" where
  "schema_title (VDict [(k, VStr name)]) = name"
| "schema_title v = ''{}''"

text \<open>
  Validators in the manner of the vendor SDK: \<open>Choice\<close> admits the five finish reasons
  of its \<open>Literal\<close> type, the other three accept what they are given.
\<close>

definition openai_finish_reasons :: "string list" where
  "openai_finish_reasons = [''stop'', ''length'', ''tool_calls'', ''content_filter'', ''function_call'']"

definition example_validators :: validators where
  "example_validators =
     \<lparr>message_model_validate = (\<lambda>m. Inr m),
      choice_validate =
        (\<lambda>ch. if finish_reason ch \<in> set openai_finish_reasons then None
              else Some (ValidationError ''finish_reason'')),
      chat_completion_validate = (\<lambda>c. None),
      call_response_validate = (\<lambda>r. None)\<rparr>"

text \<open>
  A generator method that yields five words, a before hook that answers with a context
  manager, an after hook that returns, and a stream that has not been consumed.
\<close>

definition example_generator :: "unit \<Rightarrow> unit \<Rightarrow> pydict \<Rightarrow> string list \<times> error option" where
  "example_generator self args kwargs = ([''The'', ''Name'', ''of'', ''the'', ''Wind''], None)"

definition example_before :: "(unit, string) before_hook" where
  "example_before self kw = Inr (ContextManager ''span'')"

definition example_after :: "(unit, string, string) after_hook" where
  "example_after self result before_value kw = None"

definition example_stream :: openai_stream where
  "example_stream =
     \<lparr>message_param = None, input_tokens = Some 12, output_tokens = None,
      stream_id = None, stream_model = ''gpt-4o'', finish_reasons = Some [''stop''],
      stream_metadata = VNone, stream_tool_types = VNone,
      stream_prompt_template = Some ''Recommend a {genre} book'',
      stream_fn_args = Some [(''genre'', VStr ''fantasy'')],
      stream_dynamic_config = VNone, stream_messages = [],
      stream_call_params = [], stream_call_kwargs = [],
      stream_user_message_param = VNone, stream_start_time = 0, stream_end_time = 1\<rparr>"


section \<open>Properties of the cost calculation\<close>

lemma pricing_gpt_4o:
  "dict_getitem pricing ''gpt-4o'' = Inr [(''prompt'', 0.000005), (''completion'', 0.000015)]"
  by (simp add: dict_getitem_def pricing_def)

text \<open>
  C7. For the model \<open>gpt-4o\<close> and a usage of 1000 prompt tokens and 500 completion tokens
  the cost is \<open>1000 * 0.000005 + 500 * 0.000015 = 0.0125\<close>, whatever the total count says.
\<close>

theorem cost_gpt_4o_example:
  "openai_api_calculate_cost
     (Some \<lparr>prompt_tokens = 1000, completion_tokens = 500, total_tokens = t\<rparr>) ''gpt-4o''
   = Inr (Some (1000 * 0.000005 + 500 * 0.000015))
   \<and> (1000 * 0.000005 + 500 * 0.000015 :: real) = 0.0125"
  by (simp add: openai_api_calculate_cost_def pricing_gpt_4o) (simp add: dict_getitem_def)

text \<open>
  C8. For a model name that the pricing table does not have, the result is \<open>None\<close> (cost
  unknown) and no exception is raised, for every usage, present or absent.
\<close>

theorem cost_unknown_model:
  assumes "model \<notin> fst ` set pricing"
  shows "openai_api_calculate_cost usage model = Inr None"
proof -
  from assms have "map_of pricing model = None"
    by (simp add: map_of_eq_None_iff)
  then have "dict_getitem pricing model = Inl (KeyError model)"
    by (simp add: dict_getitem_def)
  then show ?thesis
    by (simp add: openai_api_calculate_cost_def split: option.split)
qed

theorem cost_unknown_model_witness:
  "''gpt-5'' \<notin> fst ` set pricing
   \<and> openai_api_calculate_cost
       (Some \<lparr>prompt_tokens = 1000, completion_tokens = 500, total_tokens = 1500\<rparr>) ''gpt-5''
     = Inr None
   \<and> openai_api_calculate_cost None ''gpt-5'' = Inr None"
proof -
  have h: "''gpt-5'' \<notin> fst ` set pricing"
    by (simp add: pricing_def)
  show ?thesis
    using h cost_unknown_model [OF h] by simp
qed


section \<open>Properties of \<open>get_class_vars\<close>\<close>

lemma get_class_vars_loop_keys:
  "get_class_vars_loop c names acc = Inr d \<Longrightarrow> ''api_key'' \<notin> fst ` set acc
   \<Longrightarrow> ''api_key'' \<notin> fst ` set d"
proof (induction names arbitrary: acc)
  case Nil
  then show ?case by simp
next
  case (Cons n names)
  show ?case
  proof (cases "n = ''api_key''")
    case True
    with Cons show ?thesis by simp
  next
    case False
    with Cons.prems(1) obtain v where v: "getattr c n = Inr v"
      and rest: "get_class_vars_loop c names (AList.update n v acc) = Inr d"
      by (auto split: sum.splits)
    from False Cons.prems(2) have "''api_key'' \<notin> fst ` set (AList.update n v acc)"
      by (simp add: dom_update)
    with Cons.IH rest show ?thesis by blast
  qed
qed

lemma get_class_vars_loop_cong:
  assumes "\<And>k. k \<noteq> ''api_key'' \<Longrightarrow> map_of (class_attrs c') k = map_of (class_attrs c) k"
  shows "get_class_vars_loop c' names acc = get_class_vars_loop c names acc"
proof (induction names arbitrary: acc)
  case Nil
  show ?case by simp
next
  case (Cons n names)
  show ?case
  proof (cases "n = ''api_key''")
    case True
    with Cons show ?thesis by simp
  next
    case False
    with assms have "getattr c' n = getattr c n"
      by (simp add: getattr_def)
    with False Cons show ?thesis
      by (simp split: sum.splits)
  qed
qed

text \<open>
  C10. The dictionary that \<open>get_class_vars\<close> returns has no key \<open>api_key\<close>, and two
  classes with the same class variable names whose attributes agree everywhere except
  possibly at \<open>api_key\<close> give the same outcome (the same dictionary, or the same error).
\<close>

theorem get_class_vars_api_key_free:
  "(\<forall>d. get_class_vars c = Inr d \<longrightarrow> ''api_key'' \<notin> fst ` set d)
   \<and> (class_var_names c' = class_var_names c
        \<and> (\<forall>k. k \<noteq> ''api_key'' \<longrightarrow> map_of (class_attrs c') k = map_of (class_attrs c) k)
      \<longrightarrow> get_class_vars c' = get_class_vars c)"
proof (intro conjI allI impI)
  fix d
  assume "get_class_vars c = Inr d"
  then show "''api_key'' \<notin> fst ` set d"
    using get_class_vars_loop_keys [of c "class_var_names c" "[]" d]
    by (simp add: get_class_vars_def)
next
  assume h: "class_var_names c' = class_var_names c
     \<and> (\<forall>k. k \<noteq> ''api_key'' \<longrightarrow> map_of (class_attrs c') k = map_of (class_attrs c) k)"
  then have "get_class_vars_loop c' (class_var_names c) [] = get_class_vars_loop c (class_var_names c) []"
    by (intro get_class_vars_loop_cong) simp
  with h show "get_class_vars c' = get_class_vars c"
    by (simp add: get_class_vars_def)
qed

theorem get_class_vars_api_key_free_witness:
  "get_class_vars
     \<lparr>class_var_names = [''call_params'', ''api_key'', ''base_url''],
      class_attrs = [(''api_key'', VStr ''sk-one''), (''base_url'', VNone),
                     (''call_params'', VDict [(''model'', VStr ''gpt-4o'')])]\<rparr>
   = Inr [(''call_params'', VDict [(''model'', VStr ''gpt-4o'')]), (''base_url'', VNone)]
   \<and> ''api_key'' \<notin> fst ` set [(''call_params'', VDict [(''model'', VStr ''gpt-4o'')]), (''base_url'', VNone)]
   \<and> get_class_vars
       \<lparr>class_var_names = [''call_params'', ''api_key'', ''base_url''],
        class_attrs = [(''api_key'', VStr ''sk-two''), (''base_url'', VNone),
                       (''call_params'', VDict [(''model'', VStr ''gpt-4o'')])]\<rparr>
     = get_class_vars
       \<lparr>class_var_names = [''call_params'', ''api_key'', ''base_url''],
        class_attrs = [(''api_key'', VStr ''sk-one''), (''base_url'', VNone),
                       (''call_params'', VDict [(''model'', VStr ''gpt-4o'')])]\<rparr>"
proof -
  let ?c = "\<lparr>class_var_names = [''call_params'', ''api_key'', ''base_url''],
      class_attrs = [(''api_key'', VStr ''sk-one''), (''base_url'', VNone),
                     (''call_params'', VDict [(''model'', VStr ''gpt-4o'')])]\<rparr>"
  let ?c' = "\<lparr>class_var_names = [''call_params'', ''api_key'', ''base_url''],
      class_attrs = [(''api_key'', VStr ''sk-two''), (''base_url'', VNone),
                     (''call_params'', VDict [(''model'', VStr ''gpt-4o'')])]\<rparr>"
  have run: "get_class_vars ?c
      = Inr [(''call_params'', VDict [(''model'', VStr ''gpt-4o'')]), (''base_url'', VNone)]"
    by (simp add: get_class_vars_def getattr_def)
  have agree: "class_var_names ?c' = class_var_names ?c
     \<and> (\<forall>k. k \<noteq> ''api_key'' \<longrightarrow> map_of (class_attrs ?c') k = map_of (class_attrs ?c) k)"
    by simp
  from get_class_vars_api_key_free [of ?c ?c'] run agree show ?thesis
    by blast
qed


section \<open>Properties of \<open>construct_call_response\<close>\<close>

lemma construct_message_param_role:
  "dict_getitem (construct_message_param tool_calls content) ''role'' = Inr (VStr ''assistant'')"
proof -
  have "map_of (construct_message_param tool_calls content) ''role'' = Some (VStr ''assistant'')"
    by (simp add: construct_message_param_def Let_def update_conv'
             split: option.split list.split)
  then show ?thesis
    by (simp add: dict_getitem_def)
qed

text \<open>
  C5, as the code has it. A stream without an aggregated message (no \<open>message_param\<close>
  attribute) makes \<open>construct_call_response\<close> raise \<open>ValueError\<close>, so no response
  object is returned. For a stream whose \<open>message_param\<close> was built by
  \<open>_construct_message_param\<close>, the message handed to the validator is an assistant
  message; when the validators accept the message, the choice, the completion and the
  response, that response is returned; when the message is accepted and the choice is
  rejected, the exception of the choice is raised and nothing is returned.
\<close>

theorem construct_call_response_consumed:
  "(message_param s = None \<longrightarrow>
      construct_call_response v s
        = Inl (ValueError ''No stream response, check if the stream has been consumed.''))
   \<and> (message_param s = Some (construct_message_param tool_calls content) \<longrightarrow>
        map_of (response_message (VStr ''assistant'') (construct_message_param tool_calls content))
          ''role'' = Some (VStr ''assistant'')
        \<and> (message_model_validate v
              (response_message (VStr ''assistant'') (construct_message_param tool_calls content)) = Inr m
            \<and> choice_validate v (response_choice s m) = None
            \<and> chat_completion_validate v (response_completion s (response_choice s m)) = None
            \<and> call_response_validate v
                (call_response_of s (response_completion s (response_choice s m))) = None
           \<longrightarrow> construct_call_response v s
                 = Inr (call_response_of s (response_completion s (response_choice s m))))
        \<and> (message_model_validate v
              (response_message (VStr ''assistant'') (construct_message_param tool_calls content)) = Inr m
            \<and> choice_validate v (response_choice s m) = Some e
           \<longrightarrow> construct_call_response v s = Inl e))"
  by (simp add: construct_call_response_def construct_message_param_role response_message_def)

theorem construct_call_response_consumed_witness:
  "message_param example_stream = None
   \<and> construct_call_response example_validators example_stream
       = Inl (ValueError ''No stream response, check if the stream has been consumed.'')
   \<and> construct_call_response example_validators
        (example_stream\<lparr>message_param := Some (construct_message_param None (Some ''Dune''))\<rparr>)
       = Inr (call_response_of example_stream
               (response_completion example_stream
                 \<lparr>finish_reason = ''stop'', choice_index = 0,
                  choice_message = [(''role'', VStr ''assistant''), (''content'', VStr ''Dune''),
                                    (''tool_calls'', VList [])]\<rparr>))
   \<and> construct_call_response example_validators
        (example_stream\<lparr>message_param := Some (construct_message_param None (Some ''Dune'')),
                         finish_reasons := Some [''end_turn'']\<rparr>)
       = Inl (ValidationError ''finish_reason'')"
proof -
  let ?mp = "construct_message_param None (Some ''Dune'')"
  let ?msg = "[(''role'', VStr ''assistant''), (''content'', VStr ''Dune''), (''tool_calls'', VList [])]"
  let ?s1 = "example_stream\<lparr>message_param := Some ?mp\<rparr>"
  let ?s2 = "example_stream\<lparr>message_param := Some ?mp, finish_reasons := Some [''end_turn'']\<rparr>"
  have n: "message_param example_stream = None"
    by (simp add: example_stream_def)
  have msg: "response_message (VStr ''assistant'') ?mp = ?msg"
    by (simp add: response_message_def construct_message_param_def dict_get_def)
  have v: "message_model_validate example_validators ?msg = Inr ?msg"
    by (simp add: example_validators_def)
  have c1: "response_choice ?s1 ?msg
              = \<lparr>finish_reason = ''stop'', choice_index = 0, choice_message = ?msg\<rparr>"
    by (simp add: response_choice_def first_finish_reason_def example_stream_def)
  have a1: "choice_validate example_validators (response_choice ?s1 ?msg) = None"
    by (simp add: c1) (simp add: example_validators_def openai_finish_reasons_def)
  have a2: "chat_completion_validate example_validators
              (response_completion ?s1 (response_choice ?s1 ?msg)) = None"
    and a3: "call_response_validate example_validators
              (call_response_of ?s1 (response_completion ?s1 (response_choice ?s1 ?msg))) = None"
    by (simp_all add: example_validators_def)
  have r2: "choice_validate example_validators (response_choice ?s2 ?msg)
              = Some (ValidationError ''finish_reason'')"
    by (simp add: response_choice_def first_finish_reason_def example_validators_def
          openai_finish_reasons_def)
  have same: "call_response_of ?s1 (response_completion ?s1 (response_choice ?s1 ?msg))
       = call_response_of example_stream
               (response_completion example_stream
                 \<lparr>finish_reason = ''stop'', choice_index = 0, choice_message = ?msg\<rparr>)"
    by (simp add: c1) (simp add: call_response_of_def response_completion_def response_usage_def)
  from construct_call_response_consumed [of example_stream example_validators] n
  have 1: "construct_call_response example_validators example_stream
       = Inl (ValueError ''No stream response, check if the stream has been consumed.'')"
    by blast
  from construct_call_response_consumed [of ?s1 example_validators None "Some ''Dune''" ?msg]
       msg v a1 a2 a3
  have 2: "construct_call_response example_validators ?s1
       = Inr (call_response_of ?s1 (response_completion ?s1 (response_choice ?s1 ?msg)))"
    by simp
  from construct_call_response_consumed
         [of ?s2 example_validators None "Some ''Dune''" ?msg "ValidationError ''finish_reason''"]
       msg v r2
  have 3: "construct_call_response example_validators ?s2 = Inl (ValidationError ''finish_reason'')"
    by simp
  from n 1 2 3 same show ?thesis by simp
qed

text \<open>
  C5 as stated fails: a consumed stream whose first finish reason is \<open>eos\<close>, which is
  not among the finish reasons that \<open>Choice\<close> admits, makes \<open>construct_call_response\<close>
  raise instead of returning a response.
\<close>

theorem construct_call_response_raises_counterexample:
  "construct_call_response example_validators
     (example_stream\<lparr>message_param := Some (construct_message_param None (Some ''Dune'')),
                      finish_reasons := Some [''eos'']\<rparr>)
   = Inl (ValidationError ''finish_reason'')"
  by (simp add: construct_call_response_def construct_message_param_role response_message_def
        response_choice_def first_finish_reason_def example_validators_def
        openai_finish_reasons_def)


section \<open>Properties of \<open>setup_call\<close>\<close>

lemma dict_update_Nil: "dict_update d [] = d" by (simp add: dict_update_def)

lemma map_of_dict_update:
  "distinct (map fst e) \<Longrightarrow>
   map_of (dict_update d e) k = (case map_of e k of Some v \<Rightarrow> Some v | None \<Rightarrow> map_of d k)"
  unfolding dict_update_def
proof (induction e arbitrary: d)
  case Nil
  then show ?case by simp
next
  case (Cons kv e)
  let ?f = "\<lambda>acc kv. AList.update (fst kv) (snd kv) acc"
  obtain k' v' where kv: "kv = (k', v')" by (cases kv)
  from Cons.prems have d: "distinct (map fst e)" and nin: "map_of e k' = None"
    by (auto simp: kv map_of_eq_None_iff)
  have "map_of (foldl ?f d (kv # e)) k = map_of (foldl ?f (AList.update k' v' d) e) k"
    by (simp add: kv)
  also have "\<dots> = (case map_of e k of Some v \<Rightarrow> Some v | None \<Rightarrow> map_of (AList.update k' v' d) k)"
    by (rule Cons.IH [OF d])
  also have "\<dots> = (case map_of (kv # e) k of Some v \<Rightarrow> Some v | None \<Rightarrow> map_of d k)"
    using nin by (cases "k = k'") (simp_all add: kv update_conv' split: option.splits)
  finally show ?case .
qed

text \<open>
  C1, as the code has it. When the dynamic return supplies computed fields (a dictionary,
  each key once) and no non-empty message list, and the function has a docstring, the
  computed fields are merged into \<open>fn_args\<close> before the parser is called: the parser
  receives the merged dictionary, in which a key of the computed fields has the computed
  value (also when \<open>fn_args\<close> has the key) and every other key keeps the value of
  \<open>fn_args\<close>.
\<close>

theorem setup_call_computed_fields_merged:
  assumes "fn_return = Some fr" and "fr_computed_fields fr = Some cf" and "distinct (map fst cf)"
    and "\<not> truthy (fr_messages fr)" and "getdoc_fn = Some t"
  shows "\<exists>attrs. fst (setup_call ext getdoc_fn fn_args fn_return tools call_params) = attrs
     \<and> (\<forall>k. map_of attrs k = (case map_of cf k of Some v \<Rightarrow> Some v | None \<Rightarrow> map_of fn_args k))
     \<and> map_sum id (\<lambda>r. fst (snd r)) (snd (setup_call ext getdoc_fn fn_args fn_return tools call_params))
         = parse_prompt_messages ext [''system'', ''user'', ''assistant'', ''tool''] t attrs"
proof -
  let ?attrs = "dict_update fn_args cf"
  have eq: "\<not> truthy (Some cf) \<Longrightarrow> dict_update fn_args cf = fn_args"
    by (cases cf) (simp_all add: truthy_def dict_update_Nil)
  have 1: "fst (setup_call ext getdoc_fn fn_args fn_return tools call_params) = ?attrs"
    using assms eq by (simp add: setup_call_def Let_def split: sum.split prod.split)
  have 2: "map_sum id (\<lambda>r. fst (snd r)) (snd (setup_call ext getdoc_fn fn_args fn_return tools call_params))
         = parse_prompt_messages ext [''system'', ''user'', ''assistant'', ''tool''] t ?attrs"
    using assms eq by (simp add: setup_call_def Let_def split: sum.split prod.split)
  from 1 2 map_of_dict_update [OF assms(3)] show ?thesis by blast
qed

theorem setup_call_computed_fields_merged_witness:
  "distinct (map fst [(''genre'', VStr ''horror''), (''mood'', VStr ''dark'')])
   \<and> \<not> truthy (None :: pydict list option)
   \<and> map_of (fst (setup_call probe_externals (Some ''Recommend a {genre} book'')
               [(''genre'', VStr ''fantasy''), (''age'', VInt 12)]
               (Some \<lparr>fr_computed_fields = Some [(''genre'', VStr ''horror''), (''mood'', VStr ''dark'')],
                      fr_tools = None, fr_messages = None, fr_call_params = None\<rparr>) None [])) ''genre''
       = Some (VStr ''horror'')
   \<and> map_of (fst (setup_call probe_externals (Some ''Recommend a {genre} book'')
               [(''genre'', VStr ''fantasy''), (''age'', VInt 12)]
               (Some \<lparr>fr_computed_fields = Some [(''genre'', VStr ''horror''), (''mood'', VStr ''dark'')],
                      fr_tools = None, fr_messages = None, fr_call_params = None\<rparr>) None [])) ''age''
       = Some (VInt 12)"
proof -
  let ?cf = "[(''genre'', VStr ''horror''), (''mood'', VStr ''dark'')]"
  let ?fr = "\<lparr>fr_computed_fields = Some ?cf,
              fr_tools = None :: (string, string) tool_source list option,
              fr_messages = None, fr_call_params = None\<rparr>"
  have d: "distinct (map fst ?cf)" by simp
  have m: "\<not> truthy (fr_messages ?fr)" by (simp add: truthy_def)
  have n: "\<not> truthy (None :: pydict list option)" by (simp add: truthy_def)
  from setup_call_computed_fields_merged [of "Some ?fr" ?fr ?cf "Some ''Recommend a {genre} book''"
      "''Recommend a {genre} book''" probe_externals "[(''genre'', VStr ''fantasy''), (''age'', VInt 12)]" None "[]",
      OF refl _ d m refl]
  obtain attrs where
    a: "fst (setup_call probe_externals (Some ''Recommend a {genre} book'')
               [(''genre'', VStr ''fantasy''), (''age'', VInt 12)] (Some ?fr) None []) = attrs"
    and l: "\<forall>k. map_of attrs k
         = (case map_of ?cf k of Some v \<Rightarrow> Some v
            | None \<Rightarrow> map_of [(''genre'', VStr ''fantasy''), (''age'', VInt 12)] k)"
    by auto
  from l have "map_of attrs ''genre'' = Some (VStr ''horror'')" and "map_of attrs ''age'' = Some (VInt 12)"
    by simp_all
  with a d n show ?thesis by simp
qed

text \<open>
  C1 as stated fails: with \<open>genre\<close> passed explicitly as \<open>fantasy\<close> and computed as
  \<open>horror\<close>, the merged dictionary and the parsed message carry \<open>horror\<close>.
\<close>

theorem setup_call_explicit_precedence_counterexample:
  "setup_call probe_externals (Some ''Recommend a {genre} book'') [(''genre'', VStr ''fantasy'')]
  (Some \<lparr>fr_computed_fields = Some [(''genre'', VStr ''horror'')], fr_tools = None, fr_messages = None, fr_call_params = None\<rparr>) None []
  = ([(''genre'', VStr ''horror'')], Inr (Some ''Recommend a {genre} book'', [[(''role'', VStr ''user''), (''content'', VStr ''horror'')]], None, []))"
  by (simp add: setup_call_def truthy_def dict_update_def probe_externals_def probe_parser_def setup_tools_def)

text \<open>
  C2, as the code has it. When the dynamic return supplies a non-empty message list, the
  messages returned are that list, the template component is \<open>None\<close>, \<open>fn_args\<close> is
  left as it was, and neither the parser nor the docstring has any influence on the
  result.
\<close>

theorem setup_call_explicit_messages:
  assumes "fn_return = Some fr" and "fr_messages fr = Some ms" and "ms \<noteq> []"
  shows "(\<exists>tool_types call_kwargs.
            setup_call ext getdoc_fn fn_args fn_return tools call_params
              = (fn_args, Inr (None, ms, tool_types, call_kwargs)))
     \<and> setup_call (ext\<lparr>parse_prompt_messages := p\<rparr>) doc fn_args fn_return tools call_params
         = setup_call ext getdoc_fn fn_args fn_return tools call_params"
proof -
  from assms have t: "truthy (fr_messages fr)"
    by (simp add: truthy_def)
  have c: "convert_tool (ext\<lparr>parse_prompt_messages := p\<rparr>) = convert_tool ext"
    by (rule ext) (simp add: convert_tool_def split: tool_source.split)
  have s: "setup_tools (ext\<lparr>parse_prompt_messages := p\<rparr>) = setup_tools ext"
    by (intro ext) (simp add: setup_tools_def c)
  from assms t show ?thesis
    by (simp add: setup_call_def Let_def s split: prod.split)
qed

theorem setup_call_explicit_messages_witness:
  "[[(''role'', VStr ''user''), (''content'', VStr ''Recommend a book'')]] \<noteq> []
   \<and> (\<exists>tool_types call_kwargs.
        setup_call probe_externals (Some ''Recommend a {genre} book'') [(''genre'', VStr ''fantasy'')]
          (Some \<lparr>fr_computed_fields = None, fr_tools = None,
                 fr_messages = Some [[(''role'', VStr ''user''), (''content'', VStr ''Recommend a book'')]],
                 fr_call_params = None\<rparr>) None []
        = ([(''genre'', VStr ''fantasy'')],
           Inr (None, [[(''role'', VStr ''user''), (''content'', VStr ''Recommend a book'')]],
                tool_types, call_kwargs)))"
proof -
  let ?ms = "[[(''role'', VStr ''user''), (''content'', VStr ''Recommend a book'')]]"
  let ?fr = "\<lparr>fr_computed_fields = None,
              fr_tools = None :: (string, string) tool_source list option,
              fr_messages = Some ?ms, fr_call_params = None\<rparr>"
  have ne: "?ms \<noteq> []" by simp
  from setup_call_explicit_messages [of "Some ?fr" ?fr ?ms probe_externals
      "Some ''Recommend a {genre} book''" "[(''genre'', VStr ''fantasy'')]" None "[]", OF refl _ ne]
  show ?thesis by simp
qed

text \<open>
  C2 as stated fails: the function has a docstring, the dynamic return supplies one
  message, and the first component of the result is \<open>None\<close>, not the docstring.
\<close>

theorem setup_call_template_captured_counterexample:
  "setup_call probe_externals (Some ''Recommend a {genre} book'')
     [(''genre'', VStr ''fantasy'')]
     (Some \<lparr>fr_computed_fields = None, fr_tools = None,
            fr_messages = Some [[(''role'', VStr ''user''), (''content'', VStr ''Recommend a book'')]],
            fr_call_params = None\<rparr>) None []
   = ([(''genre'', VStr ''fantasy'')],
      Inr (None, [[(''role'', VStr ''user''), (''content'', VStr ''Recommend a book'')]], None, []))"
  by (simp add: setup_call_def truthy_def setup_tools_def)


section \<open>Properties of \<open>setup_extract\<close>\<close>

lemma json_mode_of_iff:
  assumes "json_mode_of rf = Inr b"
  shows "b \<longleftrightarrow> (\<exists>d. rf = VDict d \<and> map_of d ''type'' = Some (VStr ''json_object''))"
proof (cases rf)
  case (VDict d)
  with assms show ?thesis
    by (cases "map_of d ''type''")
       (auto simp: json_mode_of_def dict_getitem_def split: if_splits)
qed (use assms in \<open>auto simp: json_mode_of_def split: if_splits bool.splits sum.splits\<close>)

lemma dict_get_VDict:
  "dict_get kw k VNone = VDict d \<longleftrightarrow> map_of kw k = Some (VDict d)"
  by (cases "map_of kw k") (simp_all add: dict_get_def)

lemma setup_tools_other_keys:
  "setup_tools ext tools kw = (tts, kw') \<Longrightarrow> k \<noteq> ''tools'' \<Longrightarrow> map_of kw' k = map_of kw k"
  by (auto simp: setup_tools_def Let_def update_conv' split: if_splits)

lemma setup_call_other_keys:
  assumes "setup_call ext getdoc_fn fn_args fn_return tools call_params
             = (fn_args', Inr (template, msgs, tts, kw))"
    and "k \<noteq> ''tools''"
  shows "map_of kw k = map_of (merged_call_params call_params fn_return) k"
proof -
  let ?kw0 = "(let dynamic_call_params = (case fn_return of None \<Rightarrow> None | Some fr \<Rightarrow> fr_call_params fr)
               in if truthy dynamic_call_params then dict_update call_params (the dynamic_call_params)
                  else call_params)"
  have m: "?kw0 = merged_call_params call_params fn_return"
    by (auto simp: merged_call_params_def truthy_def dict_update_def split: option.splits)
  from assms(1) obtain tools' where "setup_tools ext tools' ?kw0 = (tts, kw)"
    by (auto simp: setup_call_def Let_def split: if_splits option.splits sum.splits prod.splits)
  from setup_tools_other_keys [OF this assms(2)] m show ?thesis
    by simp
qed

text \<open>
  Whatever \<open>setup_extract\<close> returns comes from a \<open>setup_call\<close> that returned exactly
  one tool type, with JSON mode on exactly when the merged call parameters request it.
\<close>

lemma setup_extract_returned:
  assumes "setup_extract ext getdoc_fn fn_args fn_return tool call_params
             = (fn_args', Inr (json_mode, messages', call_kwargs'))"
  shows "\<exists>template messages tool_type call_kwargs.
           setup_call ext getdoc_fn fn_args fn_return (Some [tool]) call_params
             = (fn_args', Inr (template, messages, Some [tool_type], call_kwargs))
         \<and> (json_mode \<longleftrightarrow>
              (\<exists>d. map_of (merged_call_params call_params fn_return) ''response_format'' = Some (VDict d)
                   \<and> map_of d ''type'' = Some (VStr ''json_object'')))
         \<and> (if json_mode then
               messages' = messages @
                  [[(''role'', VStr ''user''),
                    (''content'', VStr (dedent ext (extract_instruction
                                    (json_dumps ext (model_json_schema tool_type)))))]]
               \<and> call_kwargs' = AList.update ''tools'' VNone call_kwargs
             else
               messages' = messages
               \<and> call_kwargs' = AList.update ''tool_choice'' (VStr ''required'')
                                  (AList.update ''tools'' (VList [tool_schema tool_type]) call_kwargs))
         \<and> ((case fn_return of None \<Rightarrow> True | Some fr \<Rightarrow> fr_tools fr = None)
              \<longrightarrow> tool_type = convert_tool ext tool)"
proof -
  from assms obtain template messages tool_type call_kwargs where
    sc: "setup_call ext getdoc_fn fn_args fn_return (Some [tool]) call_params
           = (fn_args', Inr (template, messages, Some [tool_type], call_kwargs))"
    and jm: "json_mode_of (dict_get call_kwargs ''response_format'' VNone) = Inr json_mode"
    and res: "if json_mode then
               messages' = messages @
                  [[(''role'', VStr ''user''),
                    (''content'', VStr (dedent ext (extract_instruction
                                    (json_dumps ext (model_json_schema tool_type)))))]]
               \<and> call_kwargs' = AList.update ''tools'' VNone call_kwargs
             else
               messages' = messages
               \<and> call_kwargs' = AList.update ''tool_choice'' (VStr ''required'')
                                  (AList.update ''tools'' (VList [tool_schema tool_type]) call_kwargs)"
    by (auto simp: setup_extract_def Let_def
             split: prod.splits sum.splits option.splits list.splits if_splits)
  have rf: "map_of call_kwargs ''response_format''
              = map_of (merged_call_params call_params fn_return) ''response_format''"
    by (rule setup_call_other_keys [OF sc]) simp
  have iff: "json_mode \<longleftrightarrow>
              (\<exists>d. map_of (merged_call_params call_params fn_return) ''response_format'' = Some (VDict d)
                   \<and> map_of d ''type'' = Some (VStr ''json_object''))"
    using json_mode_of_iff [OF jm] by (simp add: dict_get_VDict rf)
  have tt: "(case fn_return of None \<Rightarrow> True | Some fr \<Rightarrow> fr_tools fr = None)
              \<longrightarrow> tool_type = convert_tool ext tool"
    using sc
    by (auto simp: setup_call_def setup_tools_def truthy_def Let_def
             split: if_splits option.splits sum.splits prod.splits)
  from sc iff res tt show ?thesis by blast
qed

lemma json_mode_of_typed:
  assumes "map_of kw ''response_format'' = map_of params ''response_format''"
    and "response_format_typed params"
  shows "json_mode_of (dict_get kw ''response_format'' VNone) = Inr (json_object_requested params)"
proof (cases "map_of params ''response_format''")
  case None
  with assms(1) show ?thesis
    by (simp add: dict_get_def json_mode_of_def json_object_requested_def)
next
  case (Some rf)
  show ?thesis
  proof (cases rf)
    case (VDict d)
    show ?thesis
    proof (cases "map_of d ''type''")
      case None
      with Some VDict assms(1) show ?thesis
        by (simp add: dict_get_def json_mode_of_def json_object_requested_def)
    next
      case (Some ty)
      then have "d \<noteq> []" by auto
      with Some \<open>map_of params ''response_format'' = Some rf\<close> VDict assms(1) show ?thesis
        by (simp add: dict_get_def json_mode_of_def json_object_requested_def dict_getitem_def)
    qed
  qed (use Some assms in \<open>simp_all add: dict_get_def json_mode_of_def json_object_requested_def
         response_format_typed_def\<close>)
qed

lemma setup_call_tool_types:
  assumes "setup_call ext getdoc_fn fn_args fn_return (Some [tool]) call_params
             = (fn_args', Inr (template, msgs, tts, kw))"
    and "tools_in_effect fn_return tool = [t]"
  shows "tts = Some [convert_tool ext t]"
  using assms
  by (auto simp: setup_call_def setup_tools_def tools_in_effect_def truthy_def Let_def
           split: if_splits option.splits sum.splits prod.splits)

text \<open>
  C3, as the code has it. Let \<open>setup_call\<close> return for the tools \<open>[tool]\<close>, let exactly
  one tool be in effect (the extraction tool, or the single tool that the dynamic return
  supplies in its place), and let \<open>response_format\<close> in the merged call parameters be
  absent, \<open>None\<close> or a dictionary. Then \<open>setup_extract\<close> returns. If the merged call
  parameters hold a \<open>response_format\<close> whose \<open>type\<close> is \<open>json_object\<close>, JSON mode is
  on, \<open>tools\<close> is set to \<open>None\<close> and one user message is appended last, whose content
  is the dedented instruction with the schema text of the tool in effect; otherwise JSON
  mode is off, the messages are unchanged, \<open>tools\<close> holds the schema of the tool in
  effect and \<open>tool_choice\<close> is \<open>required\<close>.
\<close>

theorem setup_extract_json_mode:
  assumes sc: "setup_call ext getdoc_fn fn_args fn_return (Some [tool]) call_params
                 = (fn_args', Inr (template, messages, tool_types, call_kwargs))"
    and one: "tools_in_effect fn_return tool = [t]"
    and typed: "response_format_typed (merged_call_params call_params fn_return)"
  shows "setup_extract ext getdoc_fn fn_args fn_return tool call_params
           = (fn_args',
              Inr (if json_object_requested (merged_call_params call_params fn_return)
                   then (True,
                         messages @
                           [[(''role'', VStr ''user''),
                             (''content'',
                              VStr (dedent ext (extract_instruction
                                (json_dumps ext (model_json_schema (convert_tool ext t))))))]],
                         AList.update ''tools'' VNone call_kwargs)
                   else (False,
                         messages,
                         AList.update ''tool_choice'' (VStr ''required'')
                           (AList.update ''tools'' (VList [tool_schema (convert_tool ext t)])
                              call_kwargs))))
         \<and> ((case fn_return of None \<Rightarrow> True | Some fr \<Rightarrow> fr_tools fr = None) \<longrightarrow> t = tool)"
proof -
  have tt: "tool_types = Some [convert_tool ext t]"
    by (rule setup_call_tool_types [OF sc one])
  have rf: "map_of call_kwargs ''response_format''
              = map_of (merged_call_params call_params fn_return) ''response_format''"
    by (rule setup_call_other_keys [OF sc]) simp
  have jm: "json_mode_of (dict_get call_kwargs ''response_format'' VNone)
              = Inr (json_object_requested (merged_call_params call_params fn_return))"
    by (rule json_mode_of_typed [OF rf typed])
  have run: "setup_extract ext getdoc_fn fn_args fn_return tool call_params
           = (fn_args',
              Inr (if json_object_requested (merged_call_params call_params fn_return)
                   then (True,
                         messages @
                           [[(''role'', VStr ''user''),
                             (''content'',
                              VStr (dedent ext (extract_instruction
                                (json_dumps ext (model_json_schema (convert_tool ext t))))))]],
                         AList.update ''tools'' VNone call_kwargs)
                   else (False,
                         messages,
                         AList.update ''tool_choice'' (VStr ''required'')
                           (AList.update ''tools'' (VList [tool_schema (convert_tool ext t)])
                              call_kwargs))))"
    by (simp add: setup_extract_def sc tt jm)
  have own: "(case fn_return of None \<Rightarrow> True | Some fr \<Rightarrow> fr_tools fr = None) \<longrightarrow> t = tool"
    using one by (auto simp: tools_in_effect_def split: option.splits)
  from run own show ?thesis by blast
qed

theorem setup_extract_json_mode_witness:
  "tools_in_effect (None :: (string, string) function_return option) (ToolClass ''Book'')
     = [ToolClass ''Book'']
   \<and> response_format_typed [(''response_format'', VDict [(''type'', VStr ''json_object'')])]
   \<and> setup_extract probe_externals (Some ''Recommend a {genre} book'')
        [(''genre'', VStr ''fantasy'')] None (ToolClass ''Book'')
        [(''response_format'', VDict [(''type'', VStr ''json_object'')])]
      = ([(''genre'', VStr ''fantasy'')],
         Inr (True,
              [[(''role'', VStr ''user''), (''content'', VStr ''fantasy'')],
               [(''role'', VStr ''user''), (''content'', VStr (extract_instruction ''{}''))]],
              [(''response_format'', VDict [(''type'', VStr ''json_object'')]), (''tools'', VNone)]))
   \<and> response_format_typed [(''temperature'', VInt 0)]
   \<and> setup_extract probe_externals (Some ''Recommend a {genre} book'')
        [(''genre'', VStr ''fantasy'')] None (ToolClass ''Book'')
        [(''temperature'', VInt 0)]
      = ([(''genre'', VStr ''fantasy'')],
         Inr (False,
              [[(''role'', VStr ''user''), (''content'', VStr ''fantasy'')]],
              [(''temperature'', VInt 0), (''tools'', VList [VDict [(''name'', VStr ''Book'')]]),
               (''tool_choice'', VStr ''required'')]))"
proof -
  let ?none = "None :: (string, string) function_return option"
  let ?doc = "Some ''Recommend a {genre} book''"
  let ?args = "[(''genre'', VStr ''fantasy'')]"
  let ?msgs = "[[(''role'', VStr ''user''), (''content'', VStr ''fantasy'')]]"
  let ?book = "\<lparr>tool_schema = VDict [(''name'', VStr ''Book'')],
                 model_json_schema = VDict [(''title'', VStr ''Book'')]\<rparr>"
  let ?json = "[(''response_format'', VDict [(''type'', VStr ''json_object'')])]"
  let ?plain = "[(''temperature'', VInt 0)]"
  have one: "tools_in_effect ?none (ToolClass ''Book'') = [ToolClass ''Book'']"
    by (simp add: tools_in_effect_def)
  have conv: "convert_tool probe_externals (ToolClass ''Book'') = ?book"
    by (simp add: convert_tool_def probe_externals_def)
  have sc1: "setup_call probe_externals ?doc ?args ?none (Some [ToolClass ''Book'']) ?json
      = (?args, Inr (?doc, ?msgs, Some [?book],
                     ?json @ [(''tools'', VList [VDict [(''name'', VStr ''Book'')]])]))"
    by (simp add: setup_call_def setup_tools_def truthy_def convert_tool_def
          probe_externals_def probe_parser_def)
  have sc2: "setup_call probe_externals ?doc ?args ?none (Some [ToolClass ''Book'']) ?plain
      = (?args, Inr (?doc, ?msgs, Some [?book],
                     ?plain @ [(''tools'', VList [VDict [(''name'', VStr ''Book'')]])]))"
    by (simp add: setup_call_def setup_tools_def truthy_def convert_tool_def
          probe_externals_def probe_parser_def)
  have m: "merged_call_params ?json ?none = ?json" "merged_call_params ?plain ?none = ?plain"
    by (simp_all add: merged_call_params_def)
  have t1: "response_format_typed ?json" and t2: "response_format_typed ?plain"
    by (simp_all add: response_format_typed_def)
  have j1: "json_object_requested ?json" and j2: "\<not> json_object_requested ?plain"
    by (simp_all add: json_object_requested_def)
  have d: "json_dumps probe_externals (model_json_schema ?book) = ''{}''"
    "dedent probe_externals (extract_instruction ''{}'') = extract_instruction ''{}''"
    by (simp_all add: probe_externals_def)
  from setup_extract_json_mode [OF sc1 one] t1 j1 conv d m
  have r1: "setup_extract probe_externals ?doc ?args ?none (ToolClass ''Book'') ?json
      = (?args,
         Inr (True, ?msgs @ [[(''role'', VStr ''user''), (''content'', VStr (extract_instruction ''{}''))]],
              [(''response_format'', VDict [(''type'', VStr ''json_object'')]), (''tools'', VNone)]))"
    by simp
  from setup_extract_json_mode [OF sc2 one] t2 j2 conv m
  have r2: "setup_extract probe_externals ?doc ?args ?none (ToolClass ''Book'') ?plain
      = (?args,
         Inr (False, ?msgs,
              [(''temperature'', VInt 0), (''tools'', VList [VDict [(''name'', VStr ''Book'')]]),
               (''tool_choice'', VStr ''required'')]))"
    by simp
  from one t1 t2 r1 r2 show ?thesis by simp
qed

text \<open>
  C3 as stated fails where it names the extraction tool: with the extraction tool
  \<open>Book\<close> and a dynamic return that supplies the single tool \<open>Film\<close>, the appended
  message carries the schema text of \<open>Film\<close>, while the schema of the extraction tool
  has the text \<open>Book\<close>.
\<close>

theorem setup_extract_dynamic_tool_counterexample:
  "setup_extract (probe_externals\<lparr>json_dumps := schema_title\<rparr>) (Some ''Recommend a {genre} book'')
     [(''genre'', VStr ''fantasy'')]
     (Some \<lparr>fr_computed_fields = None, fr_tools = Some [ToolClass ''Film''],
            fr_messages = None, fr_call_params = None\<rparr>)
     (ToolClass ''Book'')
     [(''response_format'', VDict [(''type'', VStr ''json_object'')])]
   = ([(''genre'', VStr ''fantasy'')],
      Inr (True,
           [[(''role'', VStr ''user''), (''content'', VStr ''fantasy'')],
            [(''role'', VStr ''user''), (''content'', VStr (extract_instruction ''Film''))]],
           [(''response_format'', VDict [(''type'', VStr ''json_object'')]), (''tools'', VNone)]))
   \<and> schema_title (model_json_schema
         (convert_tool (probe_externals\<lparr>json_dumps := schema_title\<rparr>) (ToolClass ''Book'')))
       = ''Book''
   \<and> extract_instruction ''Film'' \<noteq> extract_instruction ''Book''"
  by (simp add: setup_extract_def setup_call_def setup_tools_def truthy_def convert_tool_def
        probe_externals_def probe_parser_def dict_get_def json_mode_of_def dict_getitem_def
        extract_instruction_def)


section \<open>Properties of \<open>mirascope_span\<close>\<close>

lemma for_loop_eq: "for_loop items acc trace = (acc @ items, trace @ map Yield items)"
  by (induction items arbitrary: acc trace) simp_all

lemma yielded_append: "yielded (xs @ ys) = yielded xs @ yielded ys"
  by (induction xs rule: yielded.induct) simp_all

lemma yielded_map_Yield: "yielded (map Yield items) = items"
  by (induction items) simp_all

lemma yielded_enter_events: "yielded (enter_events bc) = []"
  by (cases bc) simp_all

lemma yielded_exit_events: "yielded (exit_events bc) = []"
  by (cases bc) simp_all

lemma yielded_call_before:
  "call_before hb self kwargs ck = (t0, r) \<Longrightarrow> yielded t0 = []"
  by (auto simp: call_before_def split: option.splits sum.splits)

lemma wrapper_generator_exhausted:
  assumes "g self args kwargs = (items, None)"
    and "call_before hb self kwargs ck = (t0, Inr bc)"
    and "merge_keywords kwargs ck = Inr kw"
  shows "wrapper_generator g hb (Some h) ck self args kwargs
           = (t0 @ enter_events bc @ map Yield items
                 @ [AfterCall self (Output items) (passed_value bc) kw] @ exit_events bc,
              h self (Output items) (passed_value bc) kw)"
  using assms
  by (cases bc) (simp_all add: wrapper_generator_def for_loop_eq call_after_def)

lemma wrapper_generator_async_exhausted:
  assumes "g self args kwargs = (items, None)"
    and "call_before hb self kwargs ck = (t0, Inr bc)"
    and "merge_keywords kwargs ck = Inr kw"
  shows "wrapper_generator_async g hb (Some h) ck self args kwargs
           = (t0 @ enter_events bc @ map Yield items
                 @ [AfterCall self (Output items) (passed_value bc) kw] @ exit_events bc,
              h self (Output items) (passed_value bc) kw)"
  using assms
  by (cases bc) (simp_all add: wrapper_generator_async_def for_loop_eq call_after_def)

text \<open>
  C4. The wrapper that \<open>mirascope_span\<close> returns has the calling convention of
  the method it wraps. For a generator or asynchronous generator method that ends normally
  after yielding \<open>items\<close>, when the before phase has not raised and the keyword arguments
  merge, the wrapper iterated to its end yields exactly \<open>items\<close> to the caller, in
  order, and then calls the after hook once, with the list \<open>items\<close> as its output
  argument: every value has been yielded before the hook runs, and nothing is yielded
  after it.
\<close>

theorem mirascope_span_convention_and_output:
  "wrapped_convention (mirascope_span fn hb ha ck) = method_convention fn
   \<and> ((fn = GeneratorFunction g \<or> fn = AsyncGeneratorFunction g)
        \<and> g self args kwargs = (items, None)
        \<and> call_before hb self kwargs ck = (t0, Inr bc)
        \<and> merge_keywords kwargs ck = Inr kw
      \<longrightarrow> (\<exists>w. (mirascope_span fn hb (Some h) ck = WrapperGenerator w
                  \<or> mirascope_span fn hb (Some h) ck = WrapperGeneratorAsync w)
               \<and> w self args kwargs
                   = (t0 @ enter_events bc @ map Yield items
                         @ [AfterCall self (Output items) (passed_value bc) kw] @ exit_events bc,
                      h self (Output items) (passed_value bc) kw)
               \<and> yielded (fst (w self args kwargs)) = items
               \<and> yielded (t0 @ enter_events bc @ map Yield items) = items))"
proof (intro conjI impI)
  show "wrapped_convention (mirascope_span fn hb ha ck) = method_convention fn"
    by (cases fn) simp_all
next
  assume h: "(fn = GeneratorFunction g \<or> fn = AsyncGeneratorFunction g)
        \<and> g self args kwargs = (items, None)
        \<and> call_before hb self kwargs ck = (t0, Inr bc)
        \<and> merge_keywords kwargs ck = Inr kw"
  then have "call_before hb self kwargs ck = (t0, Inr bc)"
    by simp
  then have y0: "yielded t0 = []"
    by (rule yielded_call_before)
  let ?tr = "t0 @ enter_events bc @ map Yield items
                 @ [AfterCall self (Output items) (passed_value bc) kw] @ exit_events bc"
  have y: "yielded ?tr = items" and y': "yielded (t0 @ enter_events bc @ map Yield items) = items"
    by (simp_all add: yielded_append y0 yielded_enter_events yielded_exit_events yielded_map_Yield)
  from h consider (sync) "fn = GeneratorFunction g" | (async) "fn = AsyncGeneratorFunction g"
    by blast
  then show "\<exists>w. (mirascope_span fn hb (Some h) ck = WrapperGenerator w
                  \<or> mirascope_span fn hb (Some h) ck = WrapperGeneratorAsync w)
               \<and> w self args kwargs = (?tr, h self (Output items) (passed_value bc) kw)
               \<and> yielded (fst (w self args kwargs)) = items
               \<and> yielded (t0 @ enter_events bc @ map Yield items) = items"
  proof cases
    case sync
    with h y y' wrapper_generator_exhausted [of g self args kwargs items hb ck t0 bc kw h]
    show ?thesis by simp
  next
    case async
    with h y y' wrapper_generator_async_exhausted [of g self args kwargs items hb ck t0 bc kw h]
    show ?thesis by simp
  qed
qed

theorem mirascope_span_convention_and_output_witness:
  "wrapped_convention
     (mirascope_span (GeneratorFunction example_generator) (Some example_before)
        (Some example_after) [(''provider'', VStr ''openai'')]) = Generator
   \<and> example_generator () () [(''stream'', VBool True)]
       = ([''The'', ''Name'', ''of'', ''the'', ''Wind''], None)
   \<and> (\<exists>w. mirascope_span (GeneratorFunction example_generator) (Some example_before)
              (Some example_after) [(''provider'', VStr ''openai'')] = WrapperGenerator w
          \<and> w () () [(''stream'', VBool True)]
              = ([BeforeCall () [(''stream'', VBool True), (''provider'', VStr ''openai'')],
                  Enter ''span'',
                  Yield ''The'', Yield ''Name'', Yield ''of'', Yield ''the'', Yield ''Wind'',
                  AfterCall () (Output [''The'', ''Name'', ''of'', ''the'', ''Wind'']) (Some ''span'')
                    [(''stream'', VBool True), (''provider'', VStr ''openai'')],
                  Exit ''span''],
                 None))"
proof -
  let ?kwargs = "[(''stream'', VBool True)]"
  let ?ck = "[(''provider'', VStr ''openai'')]"
  let ?items = "[''The'', ''Name'', ''of'', ''the'', ''Wind'']"
  have g: "example_generator () () ?kwargs = (?items, None)"
    by (simp add: example_generator_def)
  have m: "merge_keywords ?kwargs ?ck = Inr (?kwargs @ ?ck)"
    by (simp add: merge_keywords_def)
  have b: "call_before (Some example_before) () ?kwargs ?ck
             = ([BeforeCall () (?kwargs @ ?ck) :: (unit, string, string) event],
                Inr (ContextManager ''span''))"
    by (simp add: call_before_def m example_before_def)
  from mirascope_span_convention_and_output
         [of "GeneratorFunction example_generator" "Some example_before" "Some example_after" ?ck
             example_generator "()" "()" ?kwargs ?items "[BeforeCall () (?kwargs @ ?ck)]"
             "ContextManager ''span''" "?kwargs @ ?ck" example_after]
       g m b
  show ?thesis
    by (simp add: example_after_def)
qed

text \<open>
  C9. Wrapping a plain method with neither hook changes nothing: for all arguments the
  wrapper produces no event and returns what the method returns, or raises what it
  raises.
\<close>

theorem mirascope_span_no_hooks:
  "\<exists>w. mirascope_span (Function f) None None ck = Wrapper w
       \<and> (\<forall>self args kwargs. w self args kwargs = ([], f self args kwargs))"
  by (simp add: wrapper_def call_before_def call_after_def split: sum.split)

end
